theory Spec2Isabelle
  imports Main
begin

section \<open>The Calva debug adapter (src/calvaDebug.ts)\<close>

text \<open>
  The file implements a debug-adapter session on top of the vscode-debugadapter
  library, a configuration provider and an adapter-descriptor factory. Every
  handler is embedded as a function from the state it reads to the state it
  leaves and the list of effects it performs, in the order of the source. A
  JavaScript exception is the value \<open>Inl\<close> of the result.
\<close>

subsection \<open>Values built by the handlers\<close>

datatype error = TypeError
  \<comment> \<open>reading a property of \<open>undefined\<close> or \<open>null\<close>\<close>

text \<open>
  Modelled from the spec: the shape of the notification stored under
  \<open>'debug-response'\<close>. The source types it as \<open>any\<close> and reads \<open>key\<close> and
  \<open>file\<close> only; the spec's data model adds an optional line/column coordinate.
\<close>

record DebugNotification =
  key :: "string option"
  "file" :: string
  line :: "int option"
  column :: "int option"

text \<open>\<open>new Thread(id, name)\<close> of the library.\<close>

datatype Thread = Thread (thread_id: int) (thread_name: string)

text \<open>
  \<open>new Source(name, path?, id = 0, origin?, data?)\<close> of the library: the third
  argument defaults to \<open>0\<close> and is stored as \<open>sourceReference\<close>.
\<close>

datatype Source = Source
  (source_name: string)
  (path: "string option")
  (sourceReference: int)
  (origin: "string option")
  (adapterData: "string option")

definition new_Source ::
  "string \<Rightarrow> string option \<Rightarrow> int option \<Rightarrow> string option \<Rightarrow> string option \<Rightarrow> Source" where
  "new_Source nm p i orig data =
     Source nm p (case i of None \<Rightarrow> 0 | Some n \<Rightarrow> n) orig data"

text \<open>\<open>new StackFrame(i, nm, src?, ln = 0, col = 0)\<close> of the library.\<close>

datatype StackFrame = StackFrame
  (frame_id: int)
  (frame_name: string)
  (frame_source: "Source option")
  (frame_line: int)
  (frame_column: int)

datatype event =
    TerminatedEvent
  | StoppedEvent string int
    \<comment> \<open>reason, thread id\<close>

datatype body =
    Capabilities "string \<rightharpoonup> bool"
  | StackTraceBody (stackFrames: "StackFrame list") (totalFrames: int)
  | ThreadsBody (threads: "Thread list")

text \<open>
  The response object the library hands to a handler. The library builds it
  from the request with \<open>success = true\<close>; a handler fills in \<open>body\<close> at most.
\<close>

record Response =
  request_seq :: int
  success :: bool
  command :: string
  body :: "body option"

record InitializeRequestArguments =
  linesStartAt1 :: "bool option"
  columnsStartAt1 :: "bool option"

subsection \<open>Debug configurations\<close>

text \<open>
  A \<open>DebugConfiguration\<close> is an object with an index signature
  (\<open>[key: string]: any\<close>): a map from property names to JSON values. A missing
  property reads as \<open>undefined\<close>, here \<open>None\<close>.
\<close>

datatype jsval =
    JNull
  | JBool bool
  | JNum int
  | JStr string
  | JArr "jsval list"
  | JObj "(string \<times> jsval) list"

type_synonym DebugConfiguration = "string \<rightharpoonup> jsval"

text \<open>JavaScript truthiness, as the operator \<open>!\<close> tests it.\<close>

fun truthy :: "jsval option \<Rightarrow> bool" where
  "truthy None = False"
| "truthy (Some JNull) = False"
| "truthy (Some (JBool b)) = b"
| "truthy (Some (JNum n)) = (n \<noteq> 0)"
| "truthy (Some (JStr s)) = (s \<noteq> [])"
| "truthy (Some (JArr _)) = True"
| "truthy (Some (JObj _)) = True"

definition CALVA_DEBUG_CONFIGURATION :: DebugConfiguration where
  "CALVA_DEBUG_CONFIGURATION =
     [''type'' \<mapsto> JStr ''clojure'',
      ''name'' \<mapsto> JStr ''Calva Debug'',
      ''request'' \<mapsto> JStr ''attach'']"

subsection \<open>State and effects\<close>

text \<open>
  What the handlers read and write. \<open>cljSession\<close> tells whether
  \<open>util.getSession('clj')\<close> yields a session, \<open>debug_response\<close> is the entry
  \<open>'debug-response'\<close> of the extension's state store (\<open>None\<close> until
  \<open>handleDebugResponse\<close> has run), \<open>activeDebugSession\<close> tells whether
  \<open>debug.activeDebugSession\<close> is set; the last two fields are those of the
  session object that \<open>setDebuggerLinesStartAt1\<close> and
  \<open>setDebuggerColumnsStartAt1\<close> assign.
\<close>

record state =
  cljSession :: bool
  debug_response :: "DebugNotification option"
  activeDebugSession :: bool
  debuggerLinesStartAt1 :: "bool option"
  debuggerColumnsStartAt1 :: "bool option"

datatype effect =
    ShowInformationMessage string
  | SendEvent event
  | SendResponse Response
  | SendDebugInput string "string option"
    \<comment> \<open>\<open>cljSession.sendDebugInput(command, key)\<close>\<close>
  | StartDebugging DebugConfiguration

definition THREAD_ID :: int where
  "THREAD_ID = 1"

subsection \<open>CalvaDebugSession\<close>

definition initializeRequest ::
  "state \<Rightarrow> Response \<Rightarrow> 'a InitializeRequestArguments_scheme \<Rightarrow> error + state \<times> effect list" where
  "initializeRequest st response args =
     (if \<not> cljSession st then
        Inr (st,
          [ShowInformationMessage ''You must be connected to a Clojure REPL to use debugging.'',
           SendEvent TerminatedEvent])
      else
        let st' = st\<lparr>debuggerLinesStartAt1 := linesStartAt1 args,
                     debuggerColumnsStartAt1 := columnsStartAt1 args\<rparr>;
            caps = (case body response of Some (Capabilities c) \<Rightarrow> c | _ \<Rightarrow> Map.empty);
            response' = response\<lparr>body :=
              Some (Capabilities (caps(''supportsBreakpointLocationsRequest'' \<mapsto> True)))\<rparr>
        in Inr (st', [SendResponse response']))"

definition attachRequest :: "state \<Rightarrow> Response \<Rightarrow> error + state \<times> effect list" where
  "attachRequest st response =
     Inr (st, [SendResponse response, SendEvent (StoppedEvent ''breakpoint'' THREAD_ID)])"

text \<open>
  In \<open>disconnectRequest\<close> and \<open>nextRequest\<close> the read \<open>debugResponse.key\<close> stands
  inside the branch \<open>if (cljSession)\<close>: it raises when the slot is empty, before
  the command and the response are sent.
\<close>

definition disconnectRequest :: "state \<Rightarrow> Response \<Rightarrow> error + state \<times> effect list" where
  "disconnectRequest st response =
     (let debugResponse = debug_response st in
      if cljSession st then
        (case debugResponse of
           None \<Rightarrow> Inl TypeError
         | Some d \<Rightarrow> Inr (st, [SendDebugInput '':quit'' (key d), SendResponse response]))
      else Inr (st, [SendResponse response]))"

definition nextRequest :: "state \<Rightarrow> Response \<Rightarrow> error + state \<times> effect list" where
  "nextRequest st response =
     (let debugResponse = debug_response st in
      if cljSession st then
        (case debugResponse of
           None \<Rightarrow> Inl TypeError
         | Some d \<Rightarrow> Inr (st, [SendDebugInput '':next'' (key d), SendResponse response]))
      else Inr (st, [SendResponse response]))"

text \<open>
  \<open>convertDebuggerPathToClient\<close> is the library's path mapping and \<open>basename\<close>
  is Node's; both are parameters. The read \<open>debugResponse.file\<close> is the first
  statement that uses the slot.
\<close>

definition stackTraceRequest ::
  "(string \<Rightarrow> string) \<Rightarrow> (string \<Rightarrow> string) \<Rightarrow> state \<Rightarrow> Response \<Rightarrow> error + state \<times> effect list" where
  "stackTraceRequest convertDebuggerPathToClient basename st response =
     (case debug_response st of
        None \<Rightarrow> Inl TypeError
      | Some debugResponse \<Rightarrow>
          let filePath = file debugResponse;
              convertedFilePath = convertDebuggerPathToClient filePath;
              source = new_Source (basename filePath) (Some convertedFilePath) None None
                         (Some ''test-debug-data'');
              frames = [StackFrame 0 ''test'' (Some source) 18 0];
              response' = response\<lparr>body :=
                Some (StackTraceBody frames (int (length frames)))\<rparr>
          in Inr (st, [SendResponse response']))"

definition threadsRequest :: "state \<Rightarrow> Response \<Rightarrow> error + state \<times> effect list" where
  "threadsRequest st response =
     Inr (st, [SendResponse (response\<lparr>body :=
       Some (ThreadsBody [Thread THREAD_ID ''thread 1''])\<rparr>)])"

subsection \<open>handleDebugResponse\<close>

definition handleDebugResponse :: "state \<Rightarrow> DebugNotification \<Rightarrow> bool \<times> state \<times> effect list" where
  "handleDebugResponse st response =
     (let st' = st\<lparr>debug_response := Some response\<rparr> in
      (False, st',
       if \<not> activeDebugSession st' then [StartDebugging CALVA_DEBUG_CONFIGURATION] else []))"

text \<open>The state of a freshly activated extension: nothing recorded yet.\<close>

definition initial_state :: "bool \<Rightarrow> state" where
  "initial_state connected =
     \<lparr>cljSession = connected, debug_response = None, activeDebugSession = False,
      debuggerLinesStartAt1 = Some False, debuggerColumnsStartAt1 = Some False\<rparr>"

subsection \<open>CalvaDebugConfigurationProvider\<close>

text \<open>
  \<open>activeTextEditor\<close> is \<open>window.activeTextEditor\<close>, reduced to the
  \<open>languageId\<close> of its document (\<open>None\<close> when no editor is active). The
  parameters \<open>folder\<close> and \<open>token\<close> are not used by the source. The object
  spread \<open>{...config, ...CALVA_DEBUG_CONFIGURATION}\<close> is the map \<open>config\<close>
  overridden by the constant.
\<close>

definition resolveDebugConfiguration ::
  "string option \<Rightarrow> DebugConfiguration \<Rightarrow> DebugConfiguration" where
  "resolveDebugConfiguration activeTextEditor config =
     (if \<not> truthy (config ''type'') \<and> \<not> truthy (config ''request'') \<and> \<not> truthy (config ''name'')
      then (case activeTextEditor of
              None \<Rightarrow> config
            | Some languageId \<Rightarrow>
                if languageId = ''clojure'' then config ++ CALVA_DEBUG_CONFIGURATION
                else config)
      else config)"

subsection \<open>CalvaDebugAdapterDescriptorFactory\<close>

text \<open>
  A \<open>Net.Server\<close> as the factory uses it: the port the operating system bound
  it to at \<open>listen(0)\<close>, and whether it still listens. In Node,
  \<open>server.address()\<close> is \<open>null\<close> once the server has been closed, and
  \<open>server.close()\<close> without a callback does not throw, on a closed server
  either.
\<close>

record Server =
  port :: nat
  listening :: bool

definition address :: "Server \<Rightarrow> nat option" where
  "address s = (if listening s then Some (port s) else None)"

definition close :: "Server \<Rightarrow> Server" where
  "close s = s\<lparr>listening := False\<rparr>"

datatype net_effect = is_Listen: Listen nat | Close nat

datatype DebugAdapterDescriptor = DebugAdapterServer nat

record CalvaDebugAdapterDescriptorFactory =
  server :: "Server option"

definition new_factory :: CalvaDebugAdapterDescriptorFactory where
  "new_factory = \<lparr>server = None\<rparr>"

text \<open>
  \<open>os_port\<close> is the port the operating system assigns if this call opens a
  listener. The read \<open>this.server.address().port\<close> raises on a closed server;
  on that path the field was set before the call and nothing has been done yet.
\<close>

definition createDebugAdapterDescriptor ::
  "nat \<Rightarrow> CalvaDebugAdapterDescriptorFactory \<Rightarrow>
     error + DebugAdapterDescriptor \<times> CalvaDebugAdapterDescriptorFactory \<times> net_effect list" where
  "createDebugAdapterDescriptor os_port f =
     (case (case server f of
              None \<Rightarrow> (\<lparr>port = os_port, listening = True\<rparr>, [Listen os_port])
            | Some s \<Rightarrow> (s, [])) of
        (s, eff) \<Rightarrow>
          (case address s of
             None \<Rightarrow> Inl TypeError
           | Some p \<Rightarrow> Inr (DebugAdapterServer p, f\<lparr>server := Some s\<rparr>, eff)))"

definition dispose ::
  "CalvaDebugAdapterDescriptorFactory \<Rightarrow>
     error + CalvaDebugAdapterDescriptorFactory \<times> net_effect list" where
  "dispose f =
     (case server f of
        None \<Rightarrow> Inr (f, [])
      | Some s \<Rightarrow> Inr (f\<lparr>server := Some (close s)\<rparr>, [Close (port s)]))"

text \<open>
  A client of one factory instance: any sequence of calls, each with what it
  returned or raised, and the effects on the network in order. A call that
  raises leaves the instance as it was.
\<close>

datatype call = CreateDebugAdapterDescriptor nat | Dispose

datatype outcome = Descriptor DebugAdapterDescriptor | Disposed | Raised error

fun calls ::
  "CalvaDebugAdapterDescriptorFactory \<Rightarrow> call list \<Rightarrow> outcome list \<times> net_effect list" where
  "calls f [] = ([], [])"
| "calls f (CreateDebugAdapterDescriptor p # cs) =
     (case createDebugAdapterDescriptor p f of
        Inl e \<Rightarrow> (case calls f cs of (os, es) \<Rightarrow> (Raised e # os, es))
      | Inr (d, f', eff) \<Rightarrow> (case calls f' cs of (os, es) \<Rightarrow> (Descriptor d # os, eff @ es)))"
| "calls f (Dispose # cs) =
     (case dispose f of
        Inl e \<Rightarrow> (case calls f cs of (os, es) \<Rightarrow> (Raised e # os, es))
      | Inr (f', eff) \<Rightarrow> (case calls f' cs of (os, es) \<Rightarrow> (Disposed # os, eff @ es)))"

section \<open>Properties of the session\<close>

subsection \<open>Requests that read the debug slot\<close>

text \<open>
  C1 fails as stated. In the state of a connected extension in which
  \<open>handleDebugResponse\<close> has never run, a stackTrace request does not
  answer with an empty frame list: the read of \<open>file\<close> from the empty slot
  raises.
\<close>

theorem stackTraceRequest_empty_slot_counterexample:
  "debug_response (initial_state True) = None
   \<and> stackTraceRequest id id (initial_state True)
         \<lparr>request_seq = 4, success = True, command = ''stackTrace'', body = None\<rparr>
       = Inl TypeError
   \<and> stackTraceRequest id id (initial_state True)
         \<lparr>request_seq = 4, success = True, command = ''stackTrace'', body = None\<rparr>
       \<noteq> Inr (initial_state True,
           [SendResponse \<lparr>request_seq = 4, success = True, command = ''stackTrace'',
              body = Some (StackTraceBody [] 0)\<rparr>])"
  by (simp add: stackTraceRequest_def initial_state_def)

text \<open>
  C1, amended. When no notification has ever been recorded, \<open>stackTraceRequest\<close>
  raises a \<open>TypeError\<close> before it builds a body: it sends no response of its
  own, neither an empty one nor one with a frame. The handler has no branch
  for the empty slot.
\<close>

theorem stackTraceRequest_empty_slot_raises:
  "debug_response st = None \<Longrightarrow>
   stackTraceRequest convertDebuggerPathToClient basename st response = Inl TypeError"
  by (simp add: stackTraceRequest_def)

theorem stackTraceRequest_empty_slot_raises_witness:
  "debug_response (initial_state False) = None
   \<and> stackTraceRequest id id (initial_state False)
         \<lparr>request_seq = 2, success = True, command = ''stackTrace'', body = None\<rparr>
       = Inl TypeError"
proof -
  have empty: "debug_response (initial_state False) = None"
    by (simp add: initial_state_def)
  show ?thesis
    using empty stackTraceRequest_empty_slot_raises [OF empty] by simp
qed

text \<open>
  C5. With a notification of file path \<open>f\<close> current, the response to a
  stackTrace request carries exactly one frame, of id 0, whose source has the
  path \<open>f\<close> mapped by \<open>convertDebuggerPathToClient\<close>, and \<open>totalFrames\<close> is 1.
  The state is left as it was.
\<close>

theorem stackTraceRequest_one_frame:
  "debug_response st = Some n \<Longrightarrow>
   stackTraceRequest convertDebuggerPathToClient basename st response =
     Inr (st, [SendResponse (response\<lparr>body :=
       Some (StackTraceBody
         [StackFrame 0 ''test''
            (Some (Source (basename (file n)) (Some (convertDebuggerPathToClient (file n)))
               0 None (Some ''test-debug-data'')))
            18 0] 1)\<rparr>)])"
  by (simp add: stackTraceRequest_def new_Source_def Let_def)

theorem stackTraceRequest_one_frame_witness:
  "stackTraceRequest id id
     (fst (snd (handleDebugResponse (initial_state True)
        \<lparr>key = Some ''k1'', file = ''/a/b.clj'', line = None, column = None\<rparr>)))
     \<lparr>request_seq = 3, success = True, command = ''stackTrace'', body = None\<rparr>
   = Inr (fst (snd (handleDebugResponse (initial_state True)
        \<lparr>key = Some ''k1'', file = ''/a/b.clj'', line = None, column = None\<rparr>)),
       [SendResponse \<lparr>request_seq = 3, success = True, command = ''stackTrace'',
          body = Some (StackTraceBody
            [StackFrame 0 ''test''
               (Some (Source ''/a/b.clj'' (Some ''/a/b.clj'') 0 None (Some ''test-debug-data'')))
               18 0] 1)\<rparr>])"
proof -
  let ?n = "\<lparr>key = Some ''k1'', file = ''/a/b.clj'', line = None, column = None\<rparr>"
  let ?st = "fst (snd (handleDebugResponse (initial_state True) ?n))"
  have cur: "debug_response ?st = Some ?n"
    by (simp add: handleDebugResponse_def)
  show ?thesis
    using stackTraceRequest_one_frame [OF cur, of id id
      "\<lparr>request_seq = 3, success = True, command = ''stackTrace'', body = None\<rparr>"]
    by (auto simp add: stackTraceRequest_def new_Source_def handleDebugResponse_def Let_def)
qed

text \<open>
  C10. With a notification current, the one frame returned has id 0, name
  "test", line 18 and column 0, whatever the notification holds; a line or
  column carried by the notification does not change what is sent.
\<close>

theorem stackTraceRequest_placeholders:
  assumes cur: "debug_response st = Some n"
  shows "(\<exists>fr. stackTraceRequest convertDebuggerPathToClient basename st response =
       Inr (st, [SendResponse (response\<lparr>body := Some (StackTraceBody [fr] 1)\<rparr>)])
     \<and> frame_id fr = 0 \<and> frame_name fr = ''test''
     \<and> frame_line fr = 18 \<and> frame_column fr = 0)
   \<and> map_sum id snd (stackTraceRequest convertDebuggerPathToClient basename
         (st\<lparr>debug_response := Some (n\<lparr>line := l, column := c\<rparr>)\<rparr>) response)
     = map_sum id snd (stackTraceRequest convertDebuggerPathToClient basename st response)"
proof
  let ?fr = "StackFrame 0 ''test''
      (Some (new_Source (basename (file n)) (Some (convertDebuggerPathToClient (file n)))
         None None (Some ''test-debug-data'')))
      18 0"
  have sent: "stackTraceRequest convertDebuggerPathToClient basename st response =
      Inr (st, [SendResponse (response\<lparr>body := Some (StackTraceBody [?fr] 1)\<rparr>)])"
    using cur by (simp add: stackTraceRequest_def Let_def)
  have fields: "frame_id ?fr = 0 \<and> frame_name ?fr = ''test''
      \<and> frame_line ?fr = 18 \<and> frame_column ?fr = 0"
    by simp
  from sent fields
  show "\<exists>fr. stackTraceRequest convertDebuggerPathToClient basename st response =
       Inr (st, [SendResponse (response\<lparr>body := Some (StackTraceBody [fr] 1)\<rparr>)])
     \<and> frame_id fr = 0 \<and> frame_name fr = ''test''
     \<and> frame_line fr = 18 \<and> frame_column fr = 0"
    by blast
next
  show "map_sum id snd (stackTraceRequest convertDebuggerPathToClient basename
         (st\<lparr>debug_response := Some (n\<lparr>line := l, column := c\<rparr>)\<rparr>) response)
     = map_sum id snd (stackTraceRequest convertDebuggerPathToClient basename st response)"
    using cur by (simp add: stackTraceRequest_def Let_def)
qed

theorem stackTraceRequest_placeholders_witness:
  "map_sum id snd (stackTraceRequest id id
     (fst (snd (handleDebugResponse (initial_state True)
        \<lparr>key = Some ''k7'', file = ''/src/core.clj'', line = Some 42, column = Some 7\<rparr>)))
     \<lparr>request_seq = 9, success = True, command = ''stackTrace'', body = None\<rparr>)
   = Inr [SendResponse \<lparr>request_seq = 9, success = True, command = ''stackTrace'',
          body = Some (StackTraceBody
            [StackFrame 0 ''test''
               (Some (Source ''/src/core.clj'' (Some ''/src/core.clj'') 0 None
                  (Some ''test-debug-data'')))
               18 0] 1)\<rparr>]"
proof -
  let ?n = "\<lparr>key = Some ''k7'', file = ''/src/core.clj'', line = None, column = None\<rparr>"
  let ?st = "fst (snd (handleDebugResponse (initial_state True) ?n))"
  have cur: "debug_response ?st = Some ?n"
    by (simp add: handleDebugResponse_def)
  have same: "?st\<lparr>debug_response := Some (?n\<lparr>line := Some 42, column := Some 7\<rparr>)\<rparr>
      = fst (snd (handleDebugResponse (initial_state True)
          \<lparr>key = Some ''k7'', file = ''/src/core.clj'', line = Some 42, column = Some 7\<rparr>))"
    by (simp add: handleDebugResponse_def)
  have "map_sum id snd (stackTraceRequest id id ?st
      \<lparr>request_seq = 9, success = True, command = ''stackTrace'', body = None\<rparr>)
    = Inr [SendResponse \<lparr>request_seq = 9, success = True, command = ''stackTrace'',
          body = Some (StackTraceBody
            [StackFrame 0 ''test''
               (Some (Source ''/src/core.clj'' (Some ''/src/core.clj'') 0 None
                  (Some ''test-debug-data'')))
               18 0] 1)\<rparr>]"
    by (simp add: stackTraceRequest_def new_Source_def handleDebugResponse_def Let_def)
  then show ?thesis
    using stackTraceRequest_placeholders [OF cur,
        where convertDebuggerPathToClient = id and basename = id
          and response = "\<lparr>request_seq = 9, success = True, command = ''stackTrace'', body = None\<rparr>"
          and l = "Some 42" and c = "Some 7"]
    by (simp only: same)
qed

text \<open>
  C6. With a notification \<open>n\<close> current, a next request returns and leaves
  the slot holding \<open>n\<close>; the stackTrace request that follows is answered from
  \<open>n\<close>.
\<close>

theorem nextRequest_keeps_slot:
  assumes cur: "debug_response st = Some n"
  shows "\<exists>st' out. nextRequest st response = Inr (st', out)
     \<and> debug_response st' = Some n
     \<and> stackTraceRequest convertDebuggerPathToClient basename st' response' =
         Inr (st', [SendResponse (response'\<lparr>body :=
           Some (StackTraceBody
             [StackFrame 0 ''test''
                (Some (Source (basename (file n)) (Some (convertDebuggerPathToClient (file n)))
                   0 None (Some ''test-debug-data'')))
                18 0] 1)\<rparr>)])"
proof -
  obtain out where stepped: "nextRequest st response = Inr (st, out)"
    using cur by (cases "cljSession st") (simp_all add: nextRequest_def)
  have trace: "stackTraceRequest convertDebuggerPathToClient basename st response' =
         Inr (st, [SendResponse (response'\<lparr>body :=
           Some (StackTraceBody
             [StackFrame 0 ''test''
                (Some (Source (basename (file n)) (Some (convertDebuggerPathToClient (file n)))
                   0 None (Some ''test-debug-data'')))
                18 0] 1)\<rparr>)])"
    using cur by (simp add: stackTraceRequest_def new_Source_def Let_def)
  from stepped cur trace show ?thesis by blast
qed

theorem nextRequest_keeps_slot_witness:
  "\<exists>st' out.
     nextRequest
       (fst (snd (handleDebugResponse (initial_state True)
          \<lparr>key = Some ''k1'', file = ''/a/b.clj'', line = None, column = None\<rparr>)))
       \<lparr>request_seq = 7, success = True, command = ''next'', body = None\<rparr>
       = Inr (st', out)
     \<and> debug_response st'
       = Some \<lparr>key = Some ''k1'', file = ''/a/b.clj'', line = None, column = None\<rparr>
     \<and> stackTraceRequest id id st'
         \<lparr>request_seq = 8, success = True, command = ''stackTrace'', body = None\<rparr>
       = Inr (st', [SendResponse \<lparr>request_seq = 8, success = True, command = ''stackTrace'',
           body = Some (StackTraceBody
             [StackFrame 0 ''test''
                (Some (Source ''/a/b.clj'' (Some ''/a/b.clj'') 0 None (Some ''test-debug-data'')))
                18 0] 1)\<rparr>])"
proof -
  let ?n = "\<lparr>key = Some ''k1'', file = ''/a/b.clj'', line = None, column = None\<rparr>"
  let ?st = "fst (snd (handleDebugResponse (initial_state True) ?n))"
  have cur: "debug_response ?st = Some ?n"
    by (simp add: handleDebugResponse_def)
  show ?thesis
    using nextRequest_keeps_slot [OF cur, of
        "\<lparr>request_seq = 7, success = True, command = ''next'', body = None\<rparr>" id id
        "\<lparr>request_seq = 8, success = True, command = ''stackTrace'', body = None\<rparr>"]
    by simp
qed

subsection \<open>Requests that drive the language session\<close>

text \<open>
  C2 fails as stated. With a language session and an empty slot, next and
  disconnect raise at the read of \<open>key\<close>: no command reaches the bridge and
  no response is sent.
\<close>

theorem next_disconnect_empty_slot_counterexample:
  "cljSession (initial_state True)
   \<and> debug_response (initial_state True) = None
   \<and> nextRequest (initial_state True)
         \<lparr>request_seq = 5, success = True, command = ''next'', body = None\<rparr>
       = Inl TypeError
   \<and> disconnectRequest (initial_state True)
         \<lparr>request_seq = 6, success = True, command = ''disconnect'', body = None\<rparr>
       = Inl TypeError"
  by (simp add: nextRequest_def disconnectRequest_def initial_state_def)

text \<open>
  C2, amended. For next and disconnect: without a language session the
  response handed in is sent as it is and nothing goes to the bridge, whether
  a notification is recorded or not; with a language session and a current
  notification, the command (\<open>:next\<close>, \<open>:quit\<close>) is sent with that
  notification's key, which may be absent, and then the response is sent.
\<close>

theorem next_disconnect_reply:
  "(\<not> cljSession st \<longrightarrow>
      nextRequest st response = Inr (st, [SendResponse response])
      \<and> disconnectRequest st response = Inr (st, [SendResponse response]))
   \<and> (cljSession st \<and> debug_response st = Some n \<longrightarrow>
      nextRequest st response =
        Inr (st, [SendDebugInput '':next'' (key n), SendResponse response])
      \<and> disconnectRequest st response =
        Inr (st, [SendDebugInput '':quit'' (key n), SendResponse response]))"
  by (simp add: nextRequest_def disconnectRequest_def)

theorem next_disconnect_reply_witness:
  "nextRequest (initial_state False)
       \<lparr>request_seq = 5, success = True, command = ''next'', body = None\<rparr>
     = Inr (initial_state False,
         [SendResponse \<lparr>request_seq = 5, success = True, command = ''next'', body = None\<rparr>])
   \<and> disconnectRequest
       (fst (snd (handleDebugResponse (initial_state True)
          \<lparr>key = None, file = ''/a/b.clj'', line = None, column = None\<rparr>)))
       \<lparr>request_seq = 6, success = True, command = ''disconnect'', body = None\<rparr>
     = Inr (fst (snd (handleDebugResponse (initial_state True)
          \<lparr>key = None, file = ''/a/b.clj'', line = None, column = None\<rparr>)),
         [SendDebugInput '':quit'' None,
          SendResponse \<lparr>request_seq = 6, success = True, command = ''disconnect'', body = None\<rparr>])"
  using next_disconnect_reply [of "initial_state False"
      "\<lparr>request_seq = 5, success = True, command = ''next'', body = None\<rparr>"]
    next_disconnect_reply [of
      "fst (snd (handleDebugResponse (initial_state True)
          \<lparr>key = None, file = ''/a/b.clj'', line = None, column = None\<rparr>))"
      "\<lparr>request_seq = 6, success = True, command = ''disconnect'', body = None\<rparr>"
      "\<lparr>key = None, file = ''/a/b.clj'', line = None, column = None\<rparr>"]
  by (simp add: initial_state_def handleDebugResponse_def)

subsection \<open>Requests that do not depend on the slot\<close>

text \<open>
  C3. An initialize request processed while no language session exists shows
  the notice and emits one \<open>TerminatedEvent\<close>, in that order, and nothing
  else: no response is sent, no capability is set, and the state is left as
  it was.
\<close>

theorem initializeRequest_no_session:
  "\<not> cljSession st \<Longrightarrow>
   \<exists>out. initializeRequest st response args = Inr (st, out)
     \<and> out = [ShowInformationMessage ''You must be connected to a Clojure REPL to use debugging.'',
              SendEvent TerminatedEvent]
     \<and> (\<forall>r. SendResponse r \<notin> set out)
     \<and> length (filter (\<lambda>x. x = SendEvent TerminatedEvent) out) = 1"
  by (simp add: initializeRequest_def)

theorem initializeRequest_no_session_witness:
  "\<not> cljSession (initial_state False)
   \<and> initializeRequest (initial_state False)
        \<lparr>request_seq = 1, success = True, command = ''initialize'', body = None\<rparr>
        \<lparr>linesStartAt1 = Some True, columnsStartAt1 = Some True\<rparr>
      = Inr (initial_state False,
          [ShowInformationMessage ''You must be connected to a Clojure REPL to use debugging.'',
           SendEvent TerminatedEvent])"
proof -
  have off: "\<not> cljSession (initial_state False)"
    by (simp add: initial_state_def)
  show ?thesis
    using off initializeRequest_no_session [OF off,
      of "\<lparr>request_seq = 1, success = True, command = ''initialize'', body = None\<rparr>"
         "\<lparr>linesStartAt1 = Some True, columnsStartAt1 = Some True\<rparr>"]
    by simp
qed

text \<open>
  C4. An attach request, in any state, sends the response first and the
  \<open>StoppedEvent\<close> with reason "breakpoint" and thread id 1 second.
\<close>

theorem attachRequest_response_first:
  "attachRequest st response =
     Inr (st, [SendResponse response, SendEvent (StoppedEvent ''breakpoint'' 1)])"
  by (simp add: attachRequest_def THREAD_ID_def)

text \<open>
  C7. A threads request, in any state, answers with exactly one thread, of id
  1 and name "thread 1", and leaves the state as it was, so that a repeated
  request gives the same answer.
\<close>

theorem threadsRequest_single_thread:
  "threadsRequest st response =
     Inr (st, [SendResponse (response\<lparr>body := Some (ThreadsBody [Thread 1 ''thread 1''])\<rparr>)])
   \<and> (\<exists>st' out. threadsRequest st response = Inr (st', out)
        \<and> threadsRequest st' response = Inr (st', out))"
  by (simp add: threadsRequest_def THREAD_ID_def)

section \<open>Properties of the configuration provider\<close>

text \<open>
  C8 fails as stated, in two ways. A property that is present but falsy (here
  \<open>type\<close>, the empty string) does not keep the input unchanged; and an
  input with other properties (here \<open>port\<close>) is not replaced by the
  constant, it is overlaid with it.
\<close>

theorem resolveDebugConfiguration_counterexample:
  "[''type'' \<mapsto> JStr []] ''type'' \<noteq> None
   \<and> resolveDebugConfiguration (Some ''clojure'') [''type'' \<mapsto> JStr []]
       \<noteq> [''type'' \<mapsto> JStr []]
   \<and> [''port'' \<mapsto> JNum 5] ''type'' = None
   \<and> [''port'' \<mapsto> JNum 5] ''request'' = None
   \<and> [''port'' \<mapsto> JNum 5] ''name'' = None
   \<and> resolveDebugConfiguration (Some ''clojure'') [''port'' \<mapsto> JNum 5]
       \<noteq> CALVA_DEBUG_CONFIGURATION"
proof -
  have a: "resolveDebugConfiguration (Some ''clojure'') [''type'' \<mapsto> JStr []] ''type''
      = Some (JStr ''clojure'')"
    by (simp add: resolveDebugConfiguration_def CALVA_DEBUG_CONFIGURATION_def)
  have b: "resolveDebugConfiguration (Some ''clojure'') [''port'' \<mapsto> JNum 5] ''port''
      = Some (JNum 5)"
    by (simp add: resolveDebugConfiguration_def CALVA_DEBUG_CONFIGURATION_def)
  have c: "CALVA_DEBUG_CONFIGURATION ''port'' = None"
    by (simp add: CALVA_DEBUG_CONFIGURATION_def)
  have "resolveDebugConfiguration (Some ''clojure'') [''type'' \<mapsto> JStr []]
      \<noteq> [''type'' \<mapsto> JStr []]"
  proof
    assume "resolveDebugConfiguration (Some ''clojure'') [''type'' \<mapsto> JStr []]
      = [''type'' \<mapsto> JStr []]"
    then have "resolveDebugConfiguration (Some ''clojure'') [''type'' \<mapsto> JStr []] ''type''
      = [''type'' \<mapsto> JStr []] ''type''"
      by (rule arg_cong)
    with a show False by simp
  qed
  moreover have "resolveDebugConfiguration (Some ''clojure'') [''port'' \<mapsto> JNum 5]
      \<noteq> CALVA_DEBUG_CONFIGURATION"
  proof
    assume "resolveDebugConfiguration (Some ''clojure'') [''port'' \<mapsto> JNum 5]
      = CALVA_DEBUG_CONFIGURATION"
    then have "resolveDebugConfiguration (Some ''clojure'') [''port'' \<mapsto> JNum 5] ''port''
      = CALVA_DEBUG_CONFIGURATION ''port''"
      by (rule arg_cong)
    with b c show False by simp
  qed
  ultimately show ?thesis by simp
qed

text \<open>
  C8, amended. The input is returned unchanged when one of \<open>type\<close>,
  \<open>request\<close>, \<open>name\<close> is truthy, or when the active editor's document is
  not of language "clojure" (or no editor is active). When the three are
  falsy (absent, or empty) and the language is "clojure", the result is the
  input overlaid with the constant: \<open>type\<close>, \<open>name\<close> and \<open>request\<close>
  are those of the constant and every other property is the input's. For the
  empty input this is the constant itself.
\<close>

theorem resolveDebugConfiguration_cases:
  "(truthy (config ''type'') \<or> truthy (config ''request'') \<or> truthy (config ''name'')
      \<or> activeTextEditor \<noteq> Some ''clojure''
     \<longrightarrow> resolveDebugConfiguration activeTextEditor config = config)
   \<and> (\<not> truthy (config ''type'') \<and> \<not> truthy (config ''request'') \<and> \<not> truthy (config ''name'')
      \<and> activeTextEditor = Some ''clojure''
     \<longrightarrow> resolveDebugConfiguration activeTextEditor config = config ++ CALVA_DEBUG_CONFIGURATION
       \<and> resolveDebugConfiguration activeTextEditor config ''type'' = Some (JStr ''clojure'')
       \<and> resolveDebugConfiguration activeTextEditor config ''name'' = Some (JStr ''Calva Debug'')
       \<and> resolveDebugConfiguration activeTextEditor config ''request'' = Some (JStr ''attach'')
       \<and> (\<forall>k. k \<noteq> ''type'' \<and> k \<noteq> ''name'' \<and> k \<noteq> ''request''
            \<longrightarrow> resolveDebugConfiguration activeTextEditor config k = config k))
   \<and> resolveDebugConfiguration (Some ''clojure'') Map.empty = CALVA_DEBUG_CONFIGURATION"
proof (intro conjI impI)
  assume "truthy (config ''type'') \<or> truthy (config ''request'') \<or> truthy (config ''name'')
      \<or> activeTextEditor \<noteq> Some ''clojure''"
  then show "resolveDebugConfiguration activeTextEditor config = config"
    by (auto simp add: resolveDebugConfiguration_def split: option.splits)
next
  assume h: "\<not> truthy (config ''type'') \<and> \<not> truthy (config ''request'') \<and> \<not> truthy (config ''name'')
      \<and> activeTextEditor = Some ''clojure''"
  then show merged: "resolveDebugConfiguration activeTextEditor config = config ++ CALVA_DEBUG_CONFIGURATION"
    by (simp add: resolveDebugConfiguration_def)
  show "resolveDebugConfiguration activeTextEditor config ''type'' = Some (JStr ''clojure'')"
    by (simp add: merged CALVA_DEBUG_CONFIGURATION_def)
  show "resolveDebugConfiguration activeTextEditor config ''name'' = Some (JStr ''Calva Debug'')"
    by (simp add: merged CALVA_DEBUG_CONFIGURATION_def)
  show "resolveDebugConfiguration activeTextEditor config ''request'' = Some (JStr ''attach'')"
    by (simp add: merged CALVA_DEBUG_CONFIGURATION_def)
  show "\<forall>k. k \<noteq> ''type'' \<and> k \<noteq> ''name'' \<and> k \<noteq> ''request''
            \<longrightarrow> resolveDebugConfiguration activeTextEditor config k = config k"
    by (simp add: merged CALVA_DEBUG_CONFIGURATION_def map_add_def)
next
  show "resolveDebugConfiguration (Some ''clojure'') Map.empty = CALVA_DEBUG_CONFIGURATION"
    by (simp add: resolveDebugConfiguration_def)
qed

theorem resolveDebugConfiguration_cases_witness:
  "resolveDebugConfiguration (Some ''clojure'') [''type'' \<mapsto> JStr ''node'']
     = [''type'' \<mapsto> JStr ''node'']
   \<and> resolveDebugConfiguration (Some ''clojure'') [''port'' \<mapsto> JNum 5]
     = [''port'' \<mapsto> JNum 5] ++ CALVA_DEBUG_CONFIGURATION
   \<and> resolveDebugConfiguration (Some ''markdown'') Map.empty = Map.empty"
  using resolveDebugConfiguration_cases [of "[''type'' \<mapsto> JStr ''node'']" "Some ''clojure''"]
    resolveDebugConfiguration_cases [of "[''port'' \<mapsto> JNum 5]" "Some ''clojure''"]
    resolveDebugConfiguration_cases [of Map.empty "Some ''markdown''"]
  by simp

section \<open>Properties of the adapter-descriptor factory\<close>

text \<open>
  Over any sequence of calls, a listener is opened only by a call that finds
  the field \<open>server\<close> unset, and the field is never unset again.
\<close>

lemma listens_bound:
  "length (filter is_Listen (snd (calls f cs))) \<le> (if server f = None then 1 else 0)"
proof (induction cs arbitrary: f)
  case Nil
  then show ?case by simp
next
  case (Cons c cs)
  show ?case
  proof (cases c)
    case (CreateDebugAdapterDescriptor p)
    show ?thesis
    proof (cases "server f")
      case None
      let ?f' = "f\<lparr>server := Some \<lparr>port = p, listening = True\<rparr>\<rparr>"
      have step: "createDebugAdapterDescriptor p f = Inr (DebugAdapterServer p, ?f', [Listen p])"
        using None by (simp add: createDebugAdapterDescriptor_def address_def)
      have "length (filter is_Listen (snd (calls ?f' cs))) \<le> 0"
        using Cons.IH [of ?f'] by simp
      then show ?thesis
        using None CreateDebugAdapterDescriptor step by (simp add: case_prod_beta)
    next
      case (Some s)
      have rest: "length (filter is_Listen (snd (calls f cs))) \<le> 0"
        using Cons.IH [of f] Some by simp
      have same: "f\<lparr>server := Some s\<rparr> = f" using Some by simp
      have step: "createDebugAdapterDescriptor p f =
          (if listening s then Inr (DebugAdapterServer (port s), f, []) else Inl TypeError)"
        using Some by (simp add: createDebugAdapterDescriptor_def address_def same)
      show ?thesis
        using Some CreateDebugAdapterDescriptor rest step
        by (simp add: case_prod_beta)
    qed
  next
    case Dispose
    show ?thesis
    proof (cases "server f")
      case None
      then show ?thesis
        using Dispose Cons.IH [of f] by (simp add: dispose_def case_prod_beta)
    next
      case (Some s)
      then show ?thesis
        using Dispose Cons.IH [of "f\<lparr>server := Some (close s)\<rparr>"]
        by (simp add: dispose_def case_prod_beta)
    qed
  qed
qed

text \<open>
  A call of \<open>dispose\<close> on an instance that has opened no listener does
  nothing: the instance and the network are as before.
\<close>

lemma idle_dispose:
  "server f = None \<Longrightarrow> set ds \<subseteq> {Dispose} \<Longrightarrow>
   calls f (ds @ cs) = (replicate (length ds) Disposed @ fst (calls f cs), snd (calls f cs))"
proof (induction ds)
  case Nil
  then show ?case by simp
next
  case (Cons d ds)
  then have d: "d = Dispose" by simp
  have step: "dispose f = Inr (f, [])"
    using Cons.prems(1) by (simp add: dispose_def)
  have "calls f (ds @ cs) = (replicate (length ds) Disposed @ fst (calls f cs), snd (calls f cs))"
    using Cons by simp
  then show ?case
    using d step by simp
qed

text \<open>
  While the listener is open, every call of the factory operation returns the
  listener's port and leaves the instance as it was.
\<close>

lemma open_listener_calls:
  "server f = Some s \<Longrightarrow> listening s \<Longrightarrow> Dispose \<notin> set cs \<Longrightarrow>
   calls f (cs @ rest) =
     (replicate (length cs) (Descriptor (DebugAdapterServer (port s))) @ fst (calls f rest),
      snd (calls f rest))"
proof (induction cs)
  case Nil
  then show ?case by simp
next
  case (Cons c cs)
  then obtain p where c: "c = CreateDebugAdapterDescriptor p"
    by (cases c) auto
  have same: "f\<lparr>server := Some s\<rparr> = f" using Cons.prems(1) by simp
  have step: "createDebugAdapterDescriptor p f = Inr (DebugAdapterServer (port s), f, [])"
    using Cons.prems(1,2) same by (simp add: createDebugAdapterDescriptor_def address_def)
  have "calls f (cs @ rest) =
     (replicate (length cs) (Descriptor (DebugAdapterServer (port s))) @ fst (calls f rest),
      snd (calls f rest))"
    using Cons by simp
  then show ?case
    using c step by simp
qed

text \<open>
  Hence, from a new instance: disposals that find no listener, the call that
  opens the listener, and further calls of the factory operation, up to the
  first disposal that closes it.
\<close>

lemma until_closed:
  assumes idle: "set ds \<subseteq> {Dispose}" and live: "Dispose \<notin> set cs"
  shows "calls new_factory (ds @ CreateDebugAdapterDescriptor p # cs @ rest) =
     (replicate (length ds) Disposed
        @ replicate (Suc (length cs)) (Descriptor (DebugAdapterServer p))
        @ fst (calls (new_factory\<lparr>server := Some \<lparr>port = p, listening = True\<rparr>\<rparr>) rest),
      Listen p # snd (calls (new_factory\<lparr>server := Some \<lparr>port = p, listening = True\<rparr>\<rparr>) rest))"
proof -
  let ?s = "\<lparr>port = p, listening = True\<rparr>"
  let ?f = "new_factory\<lparr>server := Some ?s\<rparr>"
  have first: "createDebugAdapterDescriptor p new_factory = Inr (DebugAdapterServer p, ?f, [Listen p])"
    by (simp add: createDebugAdapterDescriptor_def new_factory_def address_def)
  have tail: "calls ?f (cs @ rest) =
     (replicate (length cs) (Descriptor (DebugAdapterServer (port ?s))) @ fst (calls ?f rest),
      snd (calls ?f rest))"
    using live by (intro open_listener_calls) simp_all
  have head: "calls new_factory (ds @ CreateDebugAdapterDescriptor p # cs @ rest) =
     (replicate (length ds) Disposed
        @ fst (calls new_factory (CreateDebugAdapterDescriptor p # cs @ rest)),
      snd (calls new_factory (CreateDebugAdapterDescriptor p # cs @ rest)))"
    using idle by (intro idle_dispose) (simp_all add: new_factory_def)
  show ?thesis
    using first tail head by simp
qed

lemma dispose_returns: "\<exists>f' eff. dispose f = Inr (f', eff)"
  by (cases "server f") (simp_all add: dispose_def)

text \<open>
  Each call adds one outcome and hands the instance on; a call of \<open>dispose\<close>
  adds the outcome \<open>Disposed\<close>, wherever it stands in the sequence.
\<close>

lemma calls_step:
  "\<exists>o' eff f'. calls f (c # cs) = (o' # fst (calls f' cs), eff @ snd (calls f' cs))
     \<and> (c = Dispose \<longrightarrow> o' = Disposed)"
proof (cases c)
  case (CreateDebugAdapterDescriptor p)
  show ?thesis
  proof (cases "createDebugAdapterDescriptor p f")
    case (Inl e)
    then have "calls f (c # cs) = (Raised e # fst (calls f cs), [] @ snd (calls f cs))"
      using CreateDebugAdapterDescriptor by (simp add: case_prod_beta)
    then show ?thesis using CreateDebugAdapterDescriptor by blast
  next
    case (Inr r)
    then obtain d f' eff where r: "createDebugAdapterDescriptor p f = Inr (d, f', eff)"
      by (cases r) auto
    then have "calls f (c # cs) = (Descriptor d # fst (calls f' cs), eff @ snd (calls f' cs))"
      using CreateDebugAdapterDescriptor by (simp add: case_prod_beta)
    then show ?thesis using CreateDebugAdapterDescriptor by blast
  qed
next
  case Dispose
  obtain f' eff where d: "dispose f = Inr (f', eff)"
    using dispose_returns by blast
  then have "calls f (c # cs) = (Disposed # fst (calls f' cs), eff @ snd (calls f' cs))"
    using Dispose by (simp add: case_prod_beta)
  then show ?thesis by blast
qed

lemma dispose_never_raises:
  "i < length cs \<Longrightarrow> cs ! i = Dispose \<Longrightarrow> fst (calls f cs) ! i = Disposed"
proof (induction cs arbitrary: f i)
  case Nil
  then show ?case by simp
next
  case (Cons c cs)
  obtain o' eff f' where step:
    "calls f (c # cs) = (o' # fst (calls f' cs), eff @ snd (calls f' cs))"
    "c = Dispose \<longrightarrow> o' = Disposed"
    using calls_step [of f c cs] by blast
  show ?case
  proof (cases i)
    case 0
    then show ?thesis using Cons.prems step by simp
  next
    case (Suc j)
    then have "fst (calls f' cs) ! j = Disposed"
      using Cons.prems Cons.IH [of j f'] by simp
    then show ?thesis using Suc step by simp
  qed
qed


text \<open>
  C9 fails as stated. \<open>dispose\<close> closes the listener and keeps the field,
  so that a call of the factory operation after disposal opens no new
  listener and raises at the read of the port of the closed one.
\<close>

theorem factory_counterexample:
  "calls new_factory
     [CreateDebugAdapterDescriptor 5000, Dispose, CreateDebugAdapterDescriptor 5001]
   = ([Descriptor (DebugAdapterServer 5000), Disposed, Raised TypeError],
      [Listen 5000, Close 5000])"
  by (simp add: createDebugAdapterDescriptor_def dispose_def new_factory_def address_def close_def)

text \<open>
  C9, amended. For every factory instance and every sequence of calls on it,
  a listener is opened at most once; every call of the factory operation made
  while the listener has not been closed, that is, before any disposal that
  follows a call of the factory operation, returns a descriptor for the port
  of that one listener, whatever port a new listener would get, and disposals
  made before the listener was opened do not change this; and \<open>dispose\<close>
  does not raise, neither on an instance that never opened a listener nor
  when called twice, nor anywhere else in a sequence of calls.
\<close>

theorem factory_single_listener:
  "length (filter is_Listen (snd (calls new_factory cs))) \<le> 1
   \<and> (set ds \<subseteq> {Dispose} \<and> Dispose \<notin> set cs' \<longrightarrow>
        fst (calls new_factory (ds @ CreateDebugAdapterDescriptor p # cs' @ rest))
          = replicate (length ds) Disposed
            @ replicate (Suc (length cs')) (Descriptor (DebugAdapterServer p))
            @ fst (calls (new_factory\<lparr>server := Some \<lparr>port = p, listening = True\<rparr>\<rparr>) rest))
   \<and> dispose new_factory = Inr (new_factory, [])
   \<and> (\<exists>f1 e1 f2 e2. dispose f = Inr (f1, e1) \<and> dispose f1 = Inr (f2, e2))
   \<and> (\<forall>i < length cs. cs ! i = Dispose \<longrightarrow> fst (calls new_factory cs) ! i = Disposed)"
proof (intro conjI impI)
  show "length (filter is_Listen (snd (calls new_factory cs))) \<le> 1"
    using listens_bound [of new_factory cs] by (simp add: new_factory_def)
next
  assume "set ds \<subseteq> {Dispose} \<and> Dispose \<notin> set cs'"
  then have idle: "set ds \<subseteq> {Dispose}" and live: "Dispose \<notin> set cs'"
    by simp_all
  show "fst (calls new_factory (ds @ CreateDebugAdapterDescriptor p # cs' @ rest))
          = replicate (length ds) Disposed
            @ replicate (Suc (length cs')) (Descriptor (DebugAdapterServer p))
            @ fst (calls (new_factory\<lparr>server := Some \<lparr>port = p, listening = True\<rparr>\<rparr>) rest)"
    using until_closed [OF idle live, of p rest] by simp
next
  show "dispose new_factory = Inr (new_factory, [])"
    by (simp add: dispose_def new_factory_def)
next
  obtain f1 e1 where one: "dispose f = Inr (f1, e1)"
    using dispose_returns by blast
  obtain f2 e2 where two: "dispose f1 = Inr (f2, e2)"
    using dispose_returns by blast
  from one two show "\<exists>f1 e1 f2 e2. dispose f = Inr (f1, e1) \<and> dispose f1 = Inr (f2, e2)"
    by blast
next
  show "\<forall>i < length cs. cs ! i = Dispose \<longrightarrow> fst (calls new_factory cs) ! i = Disposed"
    using dispose_never_raises by blast
qed

theorem factory_single_listener_witness:
  "fst (calls new_factory
     [Dispose, Dispose, CreateDebugAdapterDescriptor 5000, CreateDebugAdapterDescriptor 5001,
      CreateDebugAdapterDescriptor 5002])
   = [Disposed, Disposed, Descriptor (DebugAdapterServer 5000),
      Descriptor (DebugAdapterServer 5000), Descriptor (DebugAdapterServer 5000)]
   \<and> fst (calls new_factory [Dispose, CreateDebugAdapterDescriptor 5000, Dispose, Dispose]) ! 0
     = Disposed
   \<and> fst (calls new_factory [Dispose, CreateDebugAdapterDescriptor 5000, Dispose, Dispose]) ! 3
     = Disposed"
proof -
  let ?cs = "[Dispose, CreateDebugAdapterDescriptor 5000, Dispose, Dispose]"
  let ?more = "[CreateDebugAdapterDescriptor 5001, CreateDebugAdapterDescriptor 5002]"
  have len: "0 < length ?cs \<and> 3 < length ?cs \<and> ?cs ! 0 = Dispose \<and> ?cs ! 3 = Dispose"
    by simp
  have idle: "set [Dispose, Dispose] \<subseteq> {Dispose} \<and> Dispose \<notin> set ?more"
    by simp
  have same: "fst (calls new_factory
        ([Dispose, Dispose] @ CreateDebugAdapterDescriptor 5000 # ?more @ []))
      = replicate (length [Dispose, Dispose]) Disposed
        @ replicate (Suc (length ?more)) (Descriptor (DebugAdapterServer 5000))
        @ fst (calls (new_factory\<lparr>server := Some \<lparr>port = 5000, listening = True\<rparr>\<rparr>) [])"
    using idle factory_single_listener [where p = 5000 and ds = "[Dispose, Dispose]"
      and cs' = ?more and rest = "[]"]
    by blast
  have disposed: "fst (calls new_factory ?cs) ! 0 = Disposed \<and> fst (calls new_factory ?cs) ! 3 = Disposed"
    using len factory_single_listener [where cs = ?cs] by blast
  have shape: "[Dispose, Dispose] @ CreateDebugAdapterDescriptor 5000 # ?more @ []
      = [Dispose, Dispose, CreateDebugAdapterDescriptor 5000, CreateDebugAdapterDescriptor 5001,
         CreateDebugAdapterDescriptor 5002]"
    by simp
  have rep: "replicate (length [Dispose, Dispose]) Disposed
        @ replicate (Suc (length ?more)) (Descriptor (DebugAdapterServer 5000))
        @ fst (calls (new_factory\<lparr>server := Some \<lparr>port = 5000, listening = True\<rparr>\<rparr>) [])
      = [Disposed, Disposed, Descriptor (DebugAdapterServer 5000),
         Descriptor (DebugAdapterServer 5000), Descriptor (DebugAdapterServer 5000)]"
    by (simp add: numeral_2_eq_2)
  from same shape rep disposed show ?thesis by (simp only:)
qed

end
